theory Spec2Isabelle
  imports Complex_Main
begin

section \<open>The SOLARA provider adapter (apps/gateway/providers/solara.ts)\<close>

text \<open>
  The adapter is one class, \<^verbatim>\<open>SolaraProvider\<close>, with one method \<^verbatim>\<open>call\<close>, and one
  factory function, \<^verbatim>\<open>createSolaraProvider\<close>. The method is a retry loop around
  \<^verbatim>\<open>fetch\<close>. Its effects (console output and transport invocations) are modelled as
  a trace of events in program order, its exceptions as values of a sum type, and a
  promise that never settles as the result \<open>None\<close>.

  Modelling decisions:
  \<^item> The transport is the environment. It is a function from the number of the invocation
    (0 for the first \<^verbatim>\<open>fetch\<close> of a call) to what that invocation does when nothing
    aborts it: it rejects with an error, resolves with a response, or never settles.
    The request handed to the transport is recorded in the trace.
  \<^item> A response carries its status, its body as text (what \<^verbatim>\<open>response.text()\<close> gives)
    and the result of \<^verbatim>\<open>response.json()\<close>, which is either an error (the body is not
    JSON) or the parsed data.
  \<^item> Of the parsed data only the two paths the code reads are kept:
    \<^verbatim>\<open>choices?.[0]?.message?.content\<close> (absent, or a string, as the method's return
    type \<^verbatim>\<open>Promise<string>\<close> has it) and \<^verbatim>\<open>usage\<close>.
  \<^item> The file imports \<^verbatim>\<open>setTimeout\<close> from \<^verbatim>\<open>timers/promises\<close>, and both timers of
    \<^verbatim>\<open>call\<close> are calls of that function. It is modelled as the Node library documents
    it: \<^verbatim>\<open>setTimeout(delay, value)\<close> returns a promise and calls no function.
  \<^item> Time is not measured. A transport that answers is taken to answer within the
    deadline; one that does not is the transport that never settles.
  \<^item> \<^verbatim>\<open>maxRetries\<close> and \<^verbatim>\<open>timeoutMs\<close> are integers (JavaScript numbers with
    integral values); temperatures are rationals.
\<close>

subsection \<open>Data\<close>

text \<open>\<^verbatim>\<open>interface SolaraConfig\<close>. Optional fields are options.\<close>

record SolaraConfig =
  prompt :: string
  config_model :: string
  config_apiKey :: string
  config_timeoutMs :: "int option"
  temperature :: "rat option"
  maxTokens :: "int option"

text \<open>
  The private fields of \<^verbatim>\<open>class SolaraProvider\<close>. The type of the two numbers is a
  parameter, since the factory fills them with whatever \<^verbatim>\<open>parseInt\<close> returns; the
  method \<^verbatim>\<open>call\<close> is modelled on integers. The credential is an option: the factory
  passes \<^verbatim>\<open>process.env.SOLARA_API_KEY!\<close>, which is undefined when the variable is unset.
\<close>

record 'n SolaraProvider =
  apiKey :: "string option"
  model :: string
  timeoutMs :: 'n
  maxRetries :: 'n

text \<open>A JavaScript error object: its \<^verbatim>\<open>name\<close> and its \<^verbatim>\<open>message\<close>.\<close>

datatype js_error = Error (err_name: string) (err_message: string)

record usage =
  prompt_tokens :: "nat option"
  completion_tokens :: "nat option"
  total_tokens :: "nat option"

record response_data =
  content :: "string option"
  data_usage :: "usage option"

record response =
  status :: nat
  body_text :: string
  body_json :: "js_error + response_data"

datatype fetch_outcome = Rejected js_error | Resolved response | Unsettled

text \<open>The body and the options object passed to \<^verbatim>\<open>fetch\<close>.\<close>

record request_body =
  body_model :: string
  messages :: "(string \<times> string) list"
  body_temperature :: rat
  max_tokens :: int
  stream :: bool

record http_request =
  url :: string
  http_method :: string
  headers :: "(string \<times> string) list"
  body :: request_body

text \<open>
  What a call does, in program order. \<open>Log_attempt\<close>, \<open>Log_success\<close>, \<open>Log_failed\<close>
  and \<open>Log_retrying\<close> are the four console statements with the values they interpolate
  (the cost is printed as the last number of \<open>Log_success\<close> times 0.00001); \<open>Fetch\<close> is
  one transport invocation.
\<close>

datatype event =
    Log_attempt nat int
  | Fetch http_request
  | Log_success string "nat option" "nat option" "nat option" nat
  | Log_failed nat string
  | Log_retrying nat

text \<open>
  The two errors the method throws itself: \<^verbatim>\<open>SOLARA timeout after ${timeoutMs}ms\<close> and
  \<^verbatim>\<open>SOLARA failed after ${maxRetries} attempts: ${lastError?.message}\<close>, with the values
  they interpolate. \<open>None\<close> is a \<^verbatim>\<open>lastError\<close> that is still null.
\<close>

datatype call_error = Timeout_error int | Failed_after int "string option"

subsection \<open>The timers\<close>

text \<open>
  Modelled from the Node documentation of \<^verbatim>\<open>timers/promises\<close>, which line 13 imports
  \<^verbatim>\<open>setTimeout\<close> from: \<^verbatim>\<open>setTimeout(delay, value)\<close> returns a promise that is
  fulfilled with \<open>value\<close> after \<open>delay\<close> milliseconds (or rejected when an argument is
  refused). Whatever it is given, it calls no function. The model keeps that much: the
  list of the callbacks it invokes, which is empty. The two functions the code hands to
  it are \<^verbatim>\<open>() => controller.abort()\<close> and the \<^verbatim>\<open>resolve\<close> of the backoff promise.
\<close>

datatype callback = Abort_controller | Resolve_backoff

datatype js_value = Number int | Function callback

definition setTimeout :: "js_value \<Rightarrow> js_value \<Rightarrow> callback list" where
  "setTimeout delay v = []"

text \<open>
  Line 44, \<^verbatim>\<open>setTimeout(this.timeoutMs, () => controller.abort())\<close>: the signal of the
  controller is aborted if the timer calls the arrow function. (Line 62 hands the
  promise to \<^verbatim>\<open>clearTimeout\<close>, which calls nothing either.)
\<close>

definition signal_aborted :: "int \<Rightarrow> bool" where
  "signal_aborted ms =
     (Abort_controller \<in> set (setTimeout (Number ms) (Function Abort_controller)))"

text \<open>
  Line 100, \<^verbatim>\<open>await new Promise(resolve => setTimeout(resolve, delay))\<close>: the awaited
  promise settles if the timer calls \<^verbatim>\<open>resolve\<close>, which stands where the delay is
  expected.
\<close>

definition backoff_settles :: "nat \<Rightarrow> bool" where
  "backoff_settles delay =
     (Resolve_backoff \<in> set (setTimeout (Function Resolve_backoff) (Number (int delay))))"

text \<open>
  \<^verbatim>\<open>fetch\<close> with the signal: a request the transport has not settled is rejected with
  an \<^verbatim>\<open>AbortError\<close> when the signal is aborted.
\<close>

definition fetch_under_signal :: "bool \<Rightarrow> fetch_outcome \<Rightarrow> fetch_outcome" where
  "fetch_under_signal abort out =
     (case out of
        Unsettled \<Rightarrow>
          if abort then Rejected (Error ''AbortError'' ''The user aborted a request.'')
          else Unsettled
      | Rejected e \<Rightarrow> Rejected e
      | Resolved r \<Rightarrow> Resolved r)"

subsection \<open>One attempt\<close>

text \<open>Decimal rendering of a number in a template string.\<close>

fun show_nat :: "nat \<Rightarrow> string" where
  "show_nat n =
     (if n < 10 then [''0123456789'' ! n]
      else show_nat (n div 10) @ [''0123456789'' ! (n mod 10)])"

declare show_nat.simps [simp del]

text \<open>\<^verbatim>\<open>response.ok\<close>: the status is in the range 200 to 299.\<close>

definition ok :: "response \<Rightarrow> bool" where
  "ok r = (200 \<le> status r \<and> status r < 300)"

definition bearer :: "string option \<Rightarrow> string" where
  "bearer k = ''Bearer '' @ (case k of None \<Rightarrow> ''undefined'' | Some s \<Rightarrow> s)"

text \<open>
  The request of every attempt. The defaults of the destructuring
  \<^verbatim>\<open>{ prompt, temperature = 0.2, maxTokens = 1024 } = config\<close> apply to absent fields.
\<close>

definition request :: "int SolaraProvider \<Rightarrow> SolaraConfig \<Rightarrow> http_request" where
  "request p config =
     \<lparr> url = ''https://api.deepseek.com/v1/chat/completions'',
       http_method = ''POST'',
       headers = [(''Content-Type'', ''application/json''),
                  (''Authorization'', bearer (apiKey p))],
       body = \<lparr> body_model = model p,
                messages = [(''user'', prompt config)],
                body_temperature = (case temperature config of None \<Rightarrow> 2 / 10 | Some t \<Rightarrow> t),
                max_tokens = (case maxTokens config of None \<Rightarrow> 1024 | Some m \<Rightarrow> m),
                stream = False \<rparr> \<rparr>"

text \<open>
  The body of the \<^verbatim>\<open>try\<close> block after \<^verbatim>\<open>fetch\<close>: \<open>Inl\<close> is the error that reaches
  the \<^verbatim>\<open>catch\<close> clause, \<open>Inr\<close> the content and the data of a successful attempt,
  \<open>None\<close> a \<^verbatim>\<open>fetch\<close> that never settles. An empty string is falsy, as an absent
  content is.
\<close>

definition attempt_body ::
  "fetch_outcome \<Rightarrow> (js_error + string \<times> response_data) option" where
  "attempt_body out =
     (case out of
        Unsettled \<Rightarrow> None
      | Rejected e \<Rightarrow> Some (Inl e)
      | Resolved r \<Rightarrow>
          if \<not> ok r
          then Some (Inl (Error ''Error''
                 (''SOLARA API error ('' @ show_nat (status r) @ ''): '' @ body_text r)))
          else (case body_json r of
                  Inl e \<Rightarrow> Some (Inl e)
                | Inr d \<Rightarrow>
                    (case content d of
                       None \<Rightarrow> Some (Inl (Error ''Error'' ''SOLARA returned empty response''))
                     | Some c \<Rightarrow>
                         if c = []
                         then Some (Inl (Error ''Error'' ''SOLARA returned empty response''))
                         else Some (Inr (c, d)))))"

text \<open>The console statement of a successful attempt.\<close>

definition log_success :: "int SolaraProvider \<Rightarrow> response_data \<Rightarrow> event" where
  "log_success p d =
     Log_success (model p)
       (case data_usage d of None \<Rightarrow> None | Some u \<Rightarrow> prompt_tokens u)
       (case data_usage d of None \<Rightarrow> None | Some u \<Rightarrow> completion_tokens u)
       (case data_usage d of None \<Rightarrow> None | Some u \<Rightarrow> total_tokens u)
       (case data_usage d of None \<Rightarrow> 0
        | Some u \<Rightarrow> (case total_tokens u of None \<Rightarrow> 0 | Some n \<Rightarrow> n))"

text \<open>
  \<^verbatim>\<open>Math.pow(2, attempt) * 1000\<close>, in milliseconds. The number is a natural number
  here; the double of the source is exact for every attempt below 1000.
\<close>

definition backoff_delay :: "nat \<Rightarrow> nat" where
  "backoff_delay attempt = 2 ^ attempt * 1000"

subsection \<open>The retry loop\<close>

text \<open>
  \<open>call_loop p config fetch attempt lastError\<close> is the \<^verbatim>\<open>for\<close> loop from the given
  value of \<^verbatim>\<open>attempt\<close> on, followed by the final \<^verbatim>\<open>throw\<close>. It returns the trace
  and how the promise of \<^verbatim>\<open>call\<close> settles: with the error thrown, with the content
  returned, or not at all (\<open>None\<close>) when an awaited promise never settles.
\<close>

definition prepend :: "event list \<Rightarrow> event list \<times> 'a \<Rightarrow> event list \<times> 'a" where
  "prepend es r = (es @ fst r, snd r)"

function call_loop ::
  "int SolaraProvider \<Rightarrow> SolaraConfig \<Rightarrow> (nat \<Rightarrow> fetch_outcome) \<Rightarrow> nat \<Rightarrow> js_error option
     \<Rightarrow> event list \<times> (call_error + string) option" where
  "call_loop p config fetch attempt lastError =
     (if int attempt < maxRetries p then
        (case attempt_body (fetch_under_signal (signal_aborted (timeoutMs p)) (fetch attempt)) of
           None \<Rightarrow>
             ([Log_attempt (attempt + 1) (maxRetries p), Fetch (request p config)], None)
         | Some (Inr (c, d)) \<Rightarrow>
             ([Log_attempt (attempt + 1) (maxRetries p), Fetch (request p config),
               log_success p d],
              Some (Inr c))
         | Some (Inl e) \<Rightarrow>
             if err_name e = ''AbortError''
             then ([Log_attempt (attempt + 1) (maxRetries p), Fetch (request p config),
                    Log_failed (attempt + 1) (err_message e)],
                   Some (Inl (Timeout_error (timeoutMs p))))
             else if int attempt < maxRetries p - 1
             then (if backoff_settles (backoff_delay attempt)
                   then prepend
                          [Log_attempt (attempt + 1) (maxRetries p), Fetch (request p config),
                           Log_failed (attempt + 1) (err_message e),
                           Log_retrying (backoff_delay attempt)]
                          (call_loop p config fetch (attempt + 1) (Some e))
                   else ([Log_attempt (attempt + 1) (maxRetries p), Fetch (request p config),
                          Log_failed (attempt + 1) (err_message e),
                          Log_retrying (backoff_delay attempt)],
                         None))
             else prepend
                    [Log_attempt (attempt + 1) (maxRetries p), Fetch (request p config),
                     Log_failed (attempt + 1) (err_message e)]
                    (call_loop p config fetch (attempt + 1) (Some e)))
      else ([], Some (Inl (Failed_after (maxRetries p) (map_option err_message lastError)))))"
  by pat_completeness auto
termination
  by (relation "measure (\<lambda>(p, config, fetch, attempt, lastError). nat (maxRetries p - int attempt))")
     auto

declare call_loop.simps [simp del]

text \<open>\<^verbatim>\<open>SolaraProvider.call\<close>.\<close>

definition call ::
  "int SolaraProvider \<Rightarrow> SolaraConfig \<Rightarrow> (nat \<Rightarrow> fetch_outcome)
     \<Rightarrow> event list \<times> (call_error + string) option" where
  "call p config fetch = call_loop p config fetch 0 None"

subsection \<open>The factory\<close>

text \<open>
  \<^verbatim>\<open>createSolaraProvider\<close> reads four environment variables and constructs an object.
  Which object a caller holds matters here, so objects live in a store: \<open>instances\<close>
  lists the objects constructed so far, and a reference is a position in that list.
  \<open>env_reads\<close> lists the names of the variables read so far.
\<close>

record 'n world =
  env :: "string \<Rightarrow> string option"
  env_reads :: "string list"
  instances :: "'n SolaraProvider list"

text \<open>\<^verbatim>\<open>process.env.NAME\<close>.\<close>

definition read_env :: "string \<Rightarrow> 'n world \<Rightarrow> string option \<times> 'n world" where
  "read_env name w = (env w name, w\<lparr>env_reads := env_reads w @ [name]\<rparr>)"

text \<open>\<^verbatim>\<open>value || fallback\<close> on a string that may be undefined: undefined and the empty
  string are falsy.\<close>

definition or_default :: "string option \<Rightarrow> string \<Rightarrow> string" where
  "or_default v fallback =
     (case v of None \<Rightarrow> fallback | Some s \<Rightarrow> if s = [] then fallback else s)"

text \<open>\<^verbatim>\<open>new SolaraProvider(...)\<close>: the object is added to the store, its reference returned.\<close>

definition new_SolaraProvider :: "'n SolaraProvider \<Rightarrow> 'n world \<Rightarrow> nat \<times> 'n world" where
  "new_SolaraProvider obj w = (length (instances w), w\<lparr>instances := instances w @ [obj]\<rparr>)"

text \<open>
  \<^verbatim>\<open>createSolaraProvider\<close>. The arguments are evaluated from left to right, then the
  constructor runs. \<^verbatim>\<open>parseInt\<close> is a parameter.
\<close>

definition createSolaraProvider :: "(string \<Rightarrow> 'n) \<Rightarrow> 'n world \<Rightarrow> nat \<times> 'n world" where
  "createSolaraProvider parseInt w =
     (let (k, w1) = read_env ''SOLARA_API_KEY'' w;
          (m, w2) = read_env ''SOLARA_MODEL'' w1;
          (t, w3) = read_env ''SOLARA_TIMEOUT_MS'' w2;
          (r, w4) = read_env ''SOLARA_MAX_RETRIES'' w3
      in new_SolaraProvider
           \<lparr> apiKey = k,
             model = or_default m ''deepseek-r1'',
             timeoutMs = parseInt (or_default t ''20000''),
             maxRetries = parseInt (or_default r ''3'') \<rparr> w4)"

subsection \<open>Observations on a trace\<close>

fun is_Fetch :: "event \<Rightarrow> bool" where
  "is_Fetch (Fetch r) = True"
| "is_Fetch e = False"

text \<open>The number of transport invocations, that is, of attempts made.\<close>

definition transport_calls :: "event list \<Rightarrow> nat" where
  "transport_calls tr = length (filter is_Fetch tr)"

text \<open>The records of failed attempts: one \<^verbatim>\<open>console.error\<close> line for each.\<close>

fun is_Log_failed :: "event \<Rightarrow> bool" where
  "is_Log_failed (Log_failed a m) = True"
| "is_Log_failed e = False"

definition failure_records :: "event list \<Rightarrow> event list" where
  "failure_records tr = filter is_Log_failed tr"

text \<open>The console output: everything but the transport invocations.\<close>

fun is_console :: "event \<Rightarrow> bool" where
  "is_console (Fetch r) = False"
| "is_console e = True"

definition console :: "event list \<Rightarrow> event list" where
  "console tr = filter is_console tr"

subsection \<open>The failure labels of the specification\<close>

text \<open>
  The code has no classifier. The labels are needed to state what the specification
  says about them; they are predicates on what one transport invocation does, in the
  specification's words: status 500 to 599, status 400 to 499 other than 429, and a
  successful status with the content missing (or empty).
\<close>

definition is_ServerError :: "fetch_outcome \<Rightarrow> bool" where
  "is_ServerError out =
     (case out of Resolved r \<Rightarrow> 500 \<le> status r \<and> status r \<le> 599 | _ \<Rightarrow> False)"

definition is_ClientError :: "fetch_outcome \<Rightarrow> bool" where
  "is_ClientError out =
     (case out of
        Resolved r \<Rightarrow> 400 \<le> status r \<and> status r \<le> 499 \<and> status r \<noteq> 429
      | _ \<Rightarrow> False)"

definition is_Malformed :: "fetch_outcome \<Rightarrow> bool" where
  "is_Malformed out =
     (case out of
        Resolved r \<Rightarrow>
          ok r \<and> (case body_json r of Inl e \<Rightarrow> False
                   | Inr d \<Rightarrow> content d = None \<or> content d = Some [])
      | _ \<Rightarrow> False)"

text \<open>A response with a successful status and a present, non-empty content.\<close>

definition has_content :: "fetch_outcome \<Rightarrow> string \<Rightarrow> bool" where
  "has_content out c =
     (case out of
        Resolved r \<Rightarrow>
          ok r \<and> c \<noteq> [] \<and> (case body_json r of Inl e \<Rightarrow> False | Inr d \<Rightarrow> content d = Some c)
      | _ \<Rightarrow> False)"

subsection \<open>Example inputs\<close>

text \<open>Concrete providers, requests and transports, for the instances below.\<close>

definition provider3 :: "int SolaraProvider" where
  "provider3 =
     \<lparr> apiKey = Some ''sk-1'', model = ''deepseek-r1'', timeoutMs = 20000, maxRetries = 3 \<rparr>"

definition provider0 :: "int SolaraProvider" where
  "provider0 =
     \<lparr> apiKey = Some ''sk-1'', model = ''deepseek-r1'', timeoutMs = 20000, maxRetries = 0 \<rparr>"

definition plain_config :: SolaraConfig where
  "plain_config =
     \<lparr> prompt = ''hello'', config_model = ''deepseek-r1'', config_apiKey = ''sk-1'',
       config_timeoutMs = None, temperature = None, maxTokens = None \<rparr>"

definition tuned_config :: SolaraConfig where
  "tuned_config =
     \<lparr> prompt = ''hello'', config_model = ''deepseek-r1'', config_apiKey = ''sk-1'',
       config_timeoutMs = None, temperature = Some (7 / 10), maxTokens = Some 256 \<rparr>"

definition invalid_config :: SolaraConfig where
  "invalid_config =
     \<lparr> prompt = [], config_model = ''deepseek-r1'', config_apiKey = ''sk-1'',
       config_timeoutMs = None, temperature = Some 5, maxTokens = Some (- 1) \<rparr>"

definition answer :: response where
  "answer =
     \<lparr> status = 200, body_text = ''{...}'',
       body_json = Inr \<lparr> content = Some ''42'',
         data_usage = Some \<lparr> prompt_tokens = Some 3, completion_tokens = Some 1,
                             total_tokens = Some 4 \<rparr> \<rparr> \<rparr>"

definition no_content :: response where
  "no_content =
     \<lparr> status = 200, body_text = ''{}'',
       body_json = Inr \<lparr> content = None, data_usage = None \<rparr> \<rparr>"

definition error_response :: "nat \<Rightarrow> response" where
  "error_response code =
     \<lparr> status = code, body_text = ''oops'',
       body_json = Inl (Error ''SyntaxError'' ''Unexpected token'') \<rparr>"

definition aborted :: fetch_outcome where
  "aborted = Rejected (Error ''AbortError'' ''The user aborted a request.'')"

text \<open>A transport that does the same at every invocation, and one that follows a script.\<close>

definition always :: "fetch_outcome \<Rightarrow> nat \<Rightarrow> fetch_outcome" where
  "always out i = out"

definition script :: "fetch_outcome list \<Rightarrow> nat \<Rightarrow> fetch_outcome" where
  "script outs i = (if i < length outs then outs ! i else Resolved (error_response 500))"

section \<open>Properties\<close>

subsection \<open>The timers call nothing\<close>

lemma signal_never_aborted [simp]: "signal_aborted ms = False"
  by (simp add: signal_aborted_def setTimeout_def)

lemma backoff_never_settles [simp]: "backoff_settles delay = False"
  by (simp add: backoff_settles_def setTimeout_def)

lemma fetch_not_aborted [simp]: "fetch_under_signal False out = out"
  by (cases out) (simp_all add: fetch_under_signal_def)

subsection \<open>Unfolding the loop\<close>

lemma transport_calls_simps [simp]:
  "transport_calls [] = 0"
  "transport_calls (Fetch r # tr) = Suc (transport_calls tr)"
  "transport_calls (Log_attempt a n # tr) = transport_calls tr"
  "transport_calls (Log_success m x y z c # tr) = transport_calls tr"
  "transport_calls (Log_failed a s # tr) = transport_calls tr"
  "transport_calls (Log_retrying d # tr) = transport_calls tr"
  "transport_calls (log_success p dat # tr) = transport_calls tr"
  "transport_calls (tr @ tr') = transport_calls tr + transport_calls tr'"
  by (simp_all add: transport_calls_def log_success_def)

lemma console_simps [simp]:
  "console [] = []"
  "console (Fetch r # tr) = console tr"
  "console (Log_attempt a n # tr) = Log_attempt a n # console tr"
  "console (Log_success m x y z c # tr) = Log_success m x y z c # console tr"
  "console (Log_failed a s # tr) = Log_failed a s # console tr"
  "console (Log_retrying d # tr) = Log_retrying d # console tr"
  "console (tr @ tr') = console tr @ console tr'"
  by (simp_all add: console_def)

lemma prepend_simps [simp]:
  "fst (prepend es r) = es @ fst r"
  "snd (prepend es r) = snd r"
  by (simp_all add: prepend_def)

lemma call_loop_exhausted:
  "\<not> int a < maxRetries p \<Longrightarrow>
   call_loop p config fetch a le =
     ([], Some (Inl (Failed_after (maxRetries p) (map_option err_message le))))"
  by (simp add: call_loop.simps)

lemma call_loop_unsettled:
  "int a < maxRetries p \<Longrightarrow> attempt_body (fetch a) = None \<Longrightarrow>
   call_loop p config fetch a le =
     ([Log_attempt (a + 1) (maxRetries p), Fetch (request p config)], None)"
  by (simp add: call_loop.simps)

lemma call_loop_success:
  "int a < maxRetries p \<Longrightarrow> attempt_body (fetch a) = Some (Inr (c, d)) \<Longrightarrow>
   call_loop p config fetch a le =
     ([Log_attempt (a + 1) (maxRetries p), Fetch (request p config), log_success p d],
      Some (Inr c))"
  by (simp add: call_loop.simps)

lemma call_loop_abort:
  "int a < maxRetries p \<Longrightarrow> attempt_body (fetch a) = Some (Inl e) \<Longrightarrow>
   err_name e = ''AbortError'' \<Longrightarrow>
   call_loop p config fetch a le =
     ([Log_attempt (a + 1) (maxRetries p), Fetch (request p config),
       Log_failed (a + 1) (err_message e)], Some (Inl (Timeout_error (timeoutMs p))))"
  by (simp add: call_loop.simps)

text \<open>A failure with attempts left: the retry is announced and the call stays pending.\<close>

lemma call_loop_retry:
  "int a < maxRetries p - 1 \<Longrightarrow> attempt_body (fetch a) = Some (Inl e) \<Longrightarrow>
   err_name e \<noteq> ''AbortError'' \<Longrightarrow>
   call_loop p config fetch a le =
     ([Log_attempt (a + 1) (maxRetries p), Fetch (request p config),
       Log_failed (a + 1) (err_message e), Log_retrying (backoff_delay a)], None)"
  by (subst call_loop.simps) simp

lemma call_loop_final:
  "int a < maxRetries p \<Longrightarrow> \<not> int a < maxRetries p - 1 \<Longrightarrow>
   attempt_body (fetch a) = Some (Inl e) \<Longrightarrow> err_name e \<noteq> ''AbortError'' \<Longrightarrow>
   call_loop p config fetch a le =
     ([Log_attempt (a + 1) (maxRetries p), Fetch (request p config),
       Log_failed (a + 1) (err_message e)],
      Some (Inl (Failed_after (maxRetries p) (Some (err_message e)))))"
  by (subst call_loop.simps) (simp add: call_loop_exhausted prepend_def)

text \<open>The six ways one round of the loop can go.\<close>

lemma call_loop_cases [case_names exhausted unsettled success abort retry final]:
  obtains "\<not> int a < maxRetries p"
  | "int a < maxRetries p" "attempt_body (fetch a) = None"
  | c d where "int a < maxRetries p" "attempt_body (fetch a) = Some (Inr (c, d))"
  | e where "int a < maxRetries p" "attempt_body (fetch a) = Some (Inl e)"
      "err_name e = ''AbortError''"
  | e where "int a < maxRetries p - 1" "attempt_body (fetch a) = Some (Inl e)"
      "err_name e \<noteq> ''AbortError''"
  | e where "int a < maxRetries p" "\<not> int a < maxRetries p - 1"
      "attempt_body (fetch a) = Some (Inl e)" "err_name e \<noteq> ''AbortError''"
proof (cases "int a < maxRetries p")
  case False
  then show ?thesis using that(1) by blast
next
  case lt: True
  show ?thesis
  proof (cases "attempt_body (fetch a)")
    case None
    then show ?thesis using lt that(2) by blast
  next
    case (Some r)
    show ?thesis
    proof (cases r)
      case (Inr cd)
      then show ?thesis using Some lt that(3) [of "fst cd" "snd cd"] by simp
    next
      case (Inl e)
      then show ?thesis using Some lt that(4,5,6) [of e] by blast
    qed
  qed
qed

subsection \<open>Attempts and labels\<close>

lemma not_Abort [simp]: "''Error'' \<noteq> ''AbortError''"
  by simp

lemma attempt_body_ServerError:
  "is_ServerError out \<Longrightarrow>
   \<exists>e. attempt_body out = Some (Inl e) \<and> err_name e \<noteq> ''AbortError''"
  by (auto simp add: is_ServerError_def attempt_body_def ok_def split: fetch_outcome.splits)

lemma attempt_body_ClientError:
  "is_ClientError out \<Longrightarrow>
   \<exists>e. attempt_body out = Some (Inl e) \<and> err_name e \<noteq> ''AbortError''"
  by (auto simp add: is_ClientError_def attempt_body_def ok_def split: fetch_outcome.splits)

lemma attempt_body_Malformed:
  "is_Malformed out \<Longrightarrow>
   \<exists>e. attempt_body out = Some (Inl e) \<and> err_name e \<noteq> ''AbortError''"
  by (auto simp add: is_Malformed_def attempt_body_def split: fetch_outcome.splits sum.splits)

lemma attempt_body_has_content:
  "has_content out c = (\<exists>d. attempt_body out = Some (Inr (c, d)))"
  by (auto simp add: has_content_def attempt_body_def
      split: fetch_outcome.splits sum.splits option.splits)

text \<open>Every transport invocation of a call carries the same request.\<close>

lemma call_loop_requests:
  "Fetch r \<in> set (fst (call_loop p config fetch a le)) \<Longrightarrow> r = request p config"
  by (cases rule: call_loop_cases [where a = a and p = p and fetch = fetch])
    (auto simp add: call_loop_exhausted call_loop_unsettled call_loop_success call_loop_abort
      call_loop_retry call_loop_final log_success_def)

text \<open>The request has no part in how a call ends or in the number of its attempts.\<close>

lemma call_loop_config:
  "snd (call_loop p config fetch a le) = snd (call_loop p config' fetch a le) \<and>
   transport_calls (fst (call_loop p config fetch a le)) =
   transport_calls (fst (call_loop p config' fetch a le))"
  by (cases rule: call_loop_cases [where a = a and p = p and fetch = fetch])
    (simp_all add: call_loop_exhausted call_loop_unsettled call_loop_success call_loop_abort
      call_loop_retry call_loop_final)

text \<open>The console shows the model name, \<open>maxRetries\<close> and what the transport answered.\<close>

lemma call_loop_console:
  assumes "model p = model p'" and "maxRetries p = maxRetries p'"
  shows "console (fst (call_loop p config fetch a le)) =
         console (fst (call_loop p' config' fetch a le'))"
proof (cases rule: call_loop_cases [where a = a and p = p and fetch = fetch])
  case exhausted
  then show ?thesis using assms by (simp add: call_loop_exhausted)
next
  case unsettled
  then show ?thesis using assms by (simp add: call_loop_unsettled)
next
  case (success c d)
  then show ?thesis using assms by (simp add: call_loop_success log_success_def)
next
  case (abort e)
  then show ?thesis using assms by (simp add: call_loop_abort)
next
  case (retry e)
  have retry': "int a < maxRetries p' - 1" using retry(1) assms(2) by simp
  show ?thesis
    using assms
    by (simp add: call_loop_retry [where fetch = fetch and a = a, OF retry]
        call_loop_retry [where fetch = fetch and a = a, OF retry' retry(2,3)])
next
  case (final e)
  then show ?thesis using assms by (simp add: call_loop_final)
qed

text \<open>
  No call makes a second attempt: a failed attempt with attempts left ends in the
  backoff promise, every other attempt ends the call.
\<close>

lemma call_loop_at_most_one_attempt:
  "transport_calls (fst (call_loop p config fetch a le)) \<le> 1"
  by (cases rule: call_loop_cases [where a = a and p = p and fetch = fetch])
    (simp_all add: call_loop_exhausted call_loop_unsettled call_loop_success call_loop_abort
      call_loop_retry call_loop_final)

lemma call_at_most_one_attempt:
  "transport_calls (fst (call p config fetch)) \<le> 1"
  unfolding call_def by (rule call_loop_at_most_one_attempt)

subsection \<open>Evaluating the examples\<close>

lemmas example_defs =
  provider3_def provider0_def plain_config_def tuned_config_def invalid_config_def answer_def
  no_content_def error_response_def aborted_def always_def script_def

lemmas eval_defs =
  call_def call_loop.simps attempt_body_def ok_def show_nat.simps backoff_delay_def
  prepend_def log_success_def

section \<open>The claims\<close>

subsection \<open>C1: failures with a non-retryable label\<close>

text \<open>
  The specification's claim C1 is that a first attempt failing with \<open>ClientError\<close> or
  \<open>Malformed\<close> makes the call raise at once, after exactly one attempt, whatever
  \<open>maxRetries\<close> is. The \<^verbatim>\<open>catch\<close> clause looks at one thing only, whether the error
  is named \<^verbatim>\<open>AbortError\<close>; a status 404 is an \<^verbatim>\<open>Error\<close> like any other. With
  \<open>maxRetries = 3\<close> and a transport that answers 404, the adapter does not raise: it
  logs the failure and announces a retry, and the call has not settled.
\<close>

theorem client_error_does_not_raise_counterexample:
  "is_ClientError (always (Resolved (error_response 404)) 0) \<and>
   call provider3 plain_config (always (Resolved (error_response 404))) =
     ([Log_attempt 1 3, Fetch (request provider3 plain_config),
       Log_failed 1 ''SOLARA API error (404): oops'', Log_retrying 1000],
      None)"
  by (simp add: eval_defs example_defs is_ClientError_def)

text \<open>
  C1, as the code has it. When the first attempt fails with \<open>ClientError\<close> (status 400
  to 499 other than 429) or \<open>Malformed\<close> (successful status, content missing), the
  call raises after exactly one attempt if and only if \<open>maxRetries = 1\<close>, and the
  error is then the failed-after-1-attempts error. With a larger \<open>maxRetries\<close> the
  adapter does not raise on that failure: it logs it and announces a retry in 1000 ms,
  as for any failure that is not an abort.
\<close>

theorem non_retryable_failure_enters_backoff:
  assumes "is_ClientError (fetch 0) \<or> is_Malformed (fetch 0)" and "0 < maxRetries p"
  shows "(((\<exists>err. snd (call p config fetch) = Some (Inl err)) \<and>
           transport_calls (fst (call p config fetch)) = 1) = (maxRetries p = 1)) \<and>
    (\<exists>m. if maxRetries p = 1
       then call p config fetch =
              ([Log_attempt 1 1, Fetch (request p config), Log_failed 1 m],
               Some (Inl (Failed_after 1 (Some m))))
       else \<exists>rest. fst (call p config fetch) =
              [Log_attempt 1 (maxRetries p), Fetch (request p config), Log_failed 1 m,
               Log_retrying 1000] @ rest)"
proof -
  obtain e where e: "attempt_body (fetch 0) = Some (Inl e)" "err_name e \<noteq> ''AbortError''"
    using assms(1) attempt_body_ClientError attempt_body_Malformed by blast
  show ?thesis
  proof (cases "maxRetries p = 1")
    case True
    then have "call p config fetch =
        ([Log_attempt 1 1, Fetch (request p config), Log_failed 1 (err_message e)],
         Some (Inl (Failed_after 1 (Some (err_message e)))))"
      using call_loop_final [where a = 0 and fetch = fetch and p = p, OF _ _ e]
      by (simp add: call_def)
    then show ?thesis using True by auto
  next
    case False
    then have more: "int 0 < maxRetries p - 1" using assms(2) by simp
    have "call p config fetch =
        ([Log_attempt 1 (maxRetries p), Fetch (request p config),
          Log_failed 1 (err_message e), Log_retrying 1000], None)"
      using call_loop_retry [where a = 0 and fetch = fetch and p = p, OF more e]
      by (simp add: call_def backoff_delay_def)
    then show ?thesis using False by auto
  qed
qed

theorem non_retryable_failure_enters_backoff_witness:
  "(is_ClientError (always (Resolved no_content) 0) \<or>
      is_Malformed (always (Resolved no_content) 0)) \<and>
   0 < maxRetries provider3 \<and>
   Log_retrying 1000 \<in> set (fst (call provider3 plain_config (always (Resolved no_content))))"
proof -
  have label: "is_ClientError (always (Resolved no_content) 0) \<or>
      is_Malformed (always (Resolved no_content) 0)"
    by (simp add: example_defs is_Malformed_def ok_def)
  have pos: "0 < maxRetries provider3" by (simp add: provider3_def)
  have more: "maxRetries provider3 \<noteq> 1" by (simp add: provider3_def)
  show ?thesis
    using non_retryable_failure_enters_backoff
        [where fetch = "always (Resolved no_content)" and p = provider3 and config = plain_config,
         OF label pos]
      label pos more
    by auto
qed

subsection \<open>C2: an attempt that exceeds its deadline\<close>


subsection \<open>C3: three server errors\<close>

text \<open>
  C3 says that with \<open>maxRetries = 3\<close> and a \<open>ServerError\<close> on every attempt the call
  makes 3 attempts and then raises. The code makes the first attempt, records its
  failure, announces a retry in 1000 ms and awaits the backoff promise, which never
  settles: one transport invocation, one failure record, and the failed-after-3-attempts
  error is never thrown.
\<close>

theorem server_errors_stop_after_one_attempt:
  "maxRetries provider3 = 3 \<and>
   is_ServerError (always (Resolved (error_response 503)) 0) \<and>
   is_ServerError (always (Resolved (error_response 503)) 1) \<and>
   is_ServerError (always (Resolved (error_response 503)) 2) \<and>
   call provider3 plain_config (always (Resolved (error_response 503))) =
     ([Log_attempt 1 3, Fetch (request provider3 plain_config),
       Log_failed 1 ''SOLARA API error (503): oops'', Log_retrying 1000],
      None) \<and>
   transport_calls
     (fst (call provider3 plain_config (always (Resolved (error_response 503))))) = 1 \<and>
   length (failure_records
     (fst (call provider3 plain_config (always (Resolved (error_response 503)))))) = 1"
  by (simp add: eval_defs example_defs is_ServerError_def failure_records_def)

subsection \<open>C4: a success after failed attempts\<close>

text \<open>
  C4 says that the call returns at the first attempt whose response has a content, and
  in particular that a success on attempt 2 after two retryable failures returns with 3
  attempts. A success on attempt 0 is returned at once. A later attempt is never made:
  with the answers 503, 429 and then a response with the content \<open>42\<close>, the call makes
  one transport invocation and stays pending in the first backoff.
\<close>

theorem success_on_third_attempt_is_never_reached:
  "has_content
     (script [Resolved (error_response 503), Resolved (error_response 429), Resolved answer] 2)
     ''42'' \<and>
   call provider3 plain_config
     (script [Resolved (error_response 503), Resolved (error_response 429), Resolved answer]) =
     ([Log_attempt 1 3, Fetch (request provider3 plain_config),
       Log_failed 1 ''SOLARA API error (503): oops'', Log_retrying 1000],
      None) \<and>
   call provider3 plain_config (always (Resolved answer)) =
     ([Log_attempt 1 3, Fetch (request provider3 plain_config),
       Log_success ''deepseek-r1'' (Some 3) (Some 1) (Some 4) 4],
      Some (Inr ''42''))"
  by (simp add: eval_defs example_defs has_content_def)

subsection \<open>C5: the backoff\<close>

text \<open>
  C5 says that the adapter sleeps \<open>baseInterval * 2 ^ attemptIndex\<close> before the next
  attempt. The code computes \<^verbatim>\<open>Math.pow(2, attempt) * 1000\<close> and prints it, under the
  comment \<^verbatim>\<open>Exponential backoff\<close>, but the promise it then awaits never settles:
  nothing is slept for that time and no next attempt follows. With the answers 500 and
  then a success, the call announces a retry in 1000 ms and makes no second transport
  invocation. (The base interval is the literal 1000; the adapter has no setting for
  it.)
\<close>

theorem backoff_is_announced_and_never_ends:
  "backoff_delay 0 = 1000 \<and>
   backoff_settles (backoff_delay 0) = False \<and>
   call provider3 plain_config (script [Resolved (error_response 500), Resolved answer]) =
     ([Log_attempt 1 3, Fetch (request provider3 plain_config),
       Log_failed 1 ''SOLARA API error (500): oops'', Log_retrying 1000],
      None) \<and>
   transport_calls
     (fst (call provider3 plain_config
        (script [Resolved (error_response 500), Resolved answer]))) = 1"
  by (simp add: eval_defs example_defs)

subsection \<open>C6: invalid requests\<close>

text \<open>
  The specification's claim C6 is that a request with an empty prompt, a temperature
  outside 0 to 2 or a non-positive \<open>maxTokens\<close> fails with \<open>InvalidRequest\<close> before
  any transport invocation. The method validates nothing. A request with the empty
  prompt, temperature 5 and \<open>maxTokens = -1\<close> is sent as it is, and when the transport
  answers, the call returns the content after one transport invocation.
\<close>

theorem invalid_request_is_sent_counterexample:
  "prompt invalid_config = [] \<and> temperature invalid_config = Some 5 \<and>
   maxTokens invalid_config = Some (- 1) \<and>
   call provider3 invalid_config (always (Resolved answer)) =
     ([Log_attempt 1 3, Fetch (request provider3 invalid_config),
       Log_success ''deepseek-r1'' (Some 3) (Some 1) (Some 4) 4],
      Some (Inr ''42'')) \<and>
   transport_calls (fst (call provider3 invalid_config (always (Resolved answer)))) = 1"
  by (simp add: eval_defs example_defs)

text \<open>
  C6, as the code has it. Whatever the request, a call with \<open>maxRetries > 0\<close> starts
  with a transport invocation that carries the prompt as it is; the result of the call
  and the number of attempts are the same for any two requests, valid or not.
\<close>

theorem request_is_not_validated:
  assumes "0 < maxRetries p"
  shows "(\<exists>rest. fst (call p config fetch) =
            Log_attempt 1 (maxRetries p) # Fetch (request p config) # rest) \<and>
    messages (body (request p config)) = [(''user'', prompt config)] \<and>
    snd (call p config fetch) = snd (call p config' fetch) \<and>
    transport_calls (fst (call p config fetch)) = transport_calls (fst (call p config' fetch))"
proof -
  have "int 0 < maxRetries p" using assms by simp
  then have "\<exists>rest. fst (call_loop p config fetch 0 None) =
      Log_attempt 1 (maxRetries p) # Fetch (request p config) # rest"
    by (cases rule: call_loop_cases [where a = 0 and p = p and fetch = fetch])
      (simp_all add: call_loop_unsettled call_loop_success call_loop_abort call_loop_retry
        call_loop_final)
  then show ?thesis
    using call_loop_config [of p config fetch 0 None config']
    by (simp add: call_def request_def)
qed

theorem request_is_not_validated_witness:
  "0 < maxRetries provider3 \<and>
   messages (body (request provider3 invalid_config)) = [(''user'', [])] \<and>
   snd (call provider3 invalid_config (always (Resolved answer))) = Some (Inr ''42'') \<and>
   transport_calls (fst (call provider3 invalid_config (always (Resolved answer)))) = 1"
proof -
  have pos: "0 < maxRetries provider3" by (simp add: provider3_def)
  have plain: "call provider3 plain_config (always (Resolved answer)) =
     ([Log_attempt 1 3, Fetch (request provider3 plain_config),
       Log_success ''deepseek-r1'' (Some 3) (Some 1) (Some 4) 4],
      Some (Inr ''42''))"
    by (simp add: eval_defs example_defs)
  show ?thesis
    using request_is_not_validated [OF pos, of invalid_config "always (Resolved answer)" plain_config]
      pos
    by (simp add: plain invalid_config_def)
qed

subsection \<open>C7: the factory\<close>

text \<open>
  C7 says that two successive retrievals return the same adapter instance and that the
  configuration and the credential are read once. The factory stands under the comment
  \<^verbatim>\<open>Export singleton instance\<close>, yet it caches nothing: two successive calls of
  \<^verbatim>\<open>createSolaraProvider\<close> return two different references, construct two objects
  and read \<^verbatim>\<open>SOLARA_API_KEY\<close> twice.
\<close>

theorem createSolaraProvider_constructs_on_every_call:
  "fst (createSolaraProvider parseInt (snd (createSolaraProvider parseInt w))) \<noteq>
     fst (createSolaraProvider parseInt w) \<and>
   length (instances (snd (createSolaraProvider parseInt (snd (createSolaraProvider parseInt w))))) =
     length (instances w) + 2 \<and>
   count_list
     (env_reads (snd (createSolaraProvider parseInt (snd (createSolaraProvider parseInt w)))))
     ''SOLARA_API_KEY'' = count_list (env_reads w) ''SOLARA_API_KEY'' + 2"
  by (simp add: createSolaraProvider_def read_env_def new_SolaraProvider_def Let_def)

subsection \<open>C8: the console output is independent of the credential and the prompt\<close>

text \<open>
  C8. Two executions of \<open>call\<close> that differ only in the credential, the transport's
  answers being the same, write the same console output; so do two executions that
  differ only in the prompt. Neither the credential nor the prompt reaches the console.
\<close>

theorem console_hides_credential_and_prompt:
  "console (fst (call (p\<lparr>apiKey := k1\<rparr>) config fetch)) =
     console (fst (call (p\<lparr>apiKey := k2\<rparr>) config fetch)) \<and>
   console (fst (call p (config\<lparr>prompt := q1\<rparr>) fetch)) =
     console (fst (call p (config\<lparr>prompt := q2\<rparr>) fetch))"
  unfolding call_def
  by (intro conjI call_loop_console) simp_all

theorem console_hides_credential_and_prompt_witness:
  "console (fst (call (provider3\<lparr>apiKey := Some ''sk-2''\<rparr>) plain_config
       (script [Resolved (error_response 503), Resolved answer]))) =
     [Log_attempt 1 3, Log_failed 1 ''SOLARA API error (503): oops'', Log_retrying 1000]"
proof -
  have one: "console (fst (call (provider3\<lparr>apiKey := Some ''sk-1''\<rparr>) plain_config
       (script [Resolved (error_response 503), Resolved answer]))) =
     [Log_attempt 1 3, Log_failed 1 ''SOLARA API error (503): oops'', Log_retrying 1000]"
    by (simp add: eval_defs example_defs)
  show ?thesis
    using console_hides_credential_and_prompt
      [where p = provider3 and ?k1.0 = "Some ''sk-1''" and ?k2.0 = "Some ''sk-2''"
         and config = plain_config
         and fetch = "script [Resolved (error_response 503), Resolved answer]"]
    by (simp add: one)
qed

subsection \<open>C9: defaults of temperature and maxTokens\<close>

text \<open>
  C9. Every transport invocation of a call carries the caller's temperature and
  \<open>maxTokens\<close> unchanged when the request has them, and 0.2 and 1024 when it omits
  them.
\<close>

theorem request_defaults:
  "\<forall>r. Fetch r \<in> set (fst (call p config fetch)) \<longrightarrow>
     body_temperature (body r) = (case temperature config of None \<Rightarrow> 2 / 10 | Some t \<Rightarrow> t) \<and>
     max_tokens (body r) = (case maxTokens config of None \<Rightarrow> 1024 | Some m \<Rightarrow> m)"
proof (intro allI impI)
  fix r
  assume "Fetch r \<in> set (fst (call p config fetch))"
  then have "r = request p config"
    unfolding call_def by (rule call_loop_requests)
  then show "body_temperature (body r) = (case temperature config of None \<Rightarrow> 2 / 10 | Some t \<Rightarrow> t) \<and>
     max_tokens (body r) = (case maxTokens config of None \<Rightarrow> 1024 | Some m \<Rightarrow> m)"
    by (simp add: request_def)
qed

theorem request_defaults_witness:
  "temperature plain_config = None \<and> maxTokens plain_config = None \<and>
   Fetch (request provider3 plain_config) \<in>
     set (fst (call provider3 plain_config (always (Resolved answer)))) \<and>
   body_temperature (body (request provider3 plain_config)) = 2 / 10 \<and>
   max_tokens (body (request provider3 plain_config)) = 1024 \<and>
   temperature tuned_config = Some (7 / 10) \<and> maxTokens tuned_config = Some 256 \<and>
   Fetch (request provider3 tuned_config) \<in>
     set (fst (call provider3 tuned_config (always (Resolved answer)))) \<and>
   body_temperature (body (request provider3 tuned_config)) = 7 / 10 \<and>
   max_tokens (body (request provider3 tuned_config)) = 256"
proof -
  have sent: "Fetch (request provider3 config) \<in>
     set (fst (call provider3 config (always (Resolved answer))))" for config
    by (simp add: eval_defs provider3_def answer_def always_def)
  show ?thesis
    using request_defaults [of provider3 plain_config "always (Resolved answer)"]
      request_defaults [of provider3 tuned_config "always (Resolved answer)"]
      sent [of plain_config] sent [of tuned_config]
    by (simp add: plain_config_def tuned_config_def)
qed

subsection \<open>C10: no attempts when maxRetries is not positive\<close>

text \<open>
  C10. An adapter configured with \<open>maxRetries \<le> 0\<close> makes no transport invocation (its
  trace is empty) and throws the failed-after-N-attempts error directly, with no
  underlying cause recorded: \<^verbatim>\<open>lastError\<close> is still null.
\<close>

theorem no_attempts_when_maxRetries_not_positive:
  "maxRetries p \<le> 0 \<Longrightarrow>
   call p config fetch = ([], Some (Inl (Failed_after (maxRetries p) None))) \<and>
   transport_calls (fst (call p config fetch)) = 0"
  by (simp add: call_def call_loop_exhausted)

theorem no_attempts_when_maxRetries_not_positive_witness:
  "maxRetries provider0 \<le> 0 \<and>
   call provider0 plain_config (always (Resolved answer)) =
     ([], Some (Inl (Failed_after 0 None))) \<and>
   transport_calls (fst (call provider0 plain_config (always (Resolved answer)))) = 0"
  using no_attempts_when_maxRetries_not_positive
          [of provider0 plain_config "always (Resolved answer)"]
  by (simp add: provider0_def)

end
